theory Spec2Isabelle
  imports Main "HOL-Library.Log_Nat"
begin

section \<open>Python values\<close>

text \<open>
  The service is a FastAPI application: a request body arrives as the Python value that
  the JSON decoder produced, pydantic turns it into a model instance, and the handler
  works on the dictionary that \<^verbatim>\<open>model_dump\<close> returns.  A Python \<^verbatim>\<open>float\<close> is an
  IEEE 754 binary64 number; a finite one is represented by its exact rational value
  (the two zeros are identified), and every arithmetic operation rounds its exact
  result to the nearest binary64 number, ties to even.
\<close>

datatype pyfloat = Fin rat | PInf | NInf | NaN

datatype pyval =
    VNone
  | VBool bool
  | VInt int
  | VFloat pyfloat
  | VStr string
  | VList "pyval list"
  | VDict "(string \<times> pyval) list"
  | VDatetime nat

type_synonym pydict = "(string \<times> pyval) list"

datatype error =
    ValidationError "string list"
  | StorageError
  | KeyError string
  | TypeError
  | OverflowError

subsection \<open>Dictionaries\<close>

text \<open>
  A \<^verbatim>\<open>dict\<close> keeps its keys in insertion order: \<^verbatim>\<open>d[k] = v\<close> replaces the value
  of a key that is present, in place, and appends a new key at the end.
\<close>

fun dict_get :: "('k \<times> 'v) list \<Rightarrow> 'k \<Rightarrow> 'v option" where
  "dict_get [] k = None"
| "dict_get ((k', v') # d) k = (if k' = k then Some v' else dict_get d k)"

fun dict_set :: "('k \<times> 'v) list \<Rightarrow> 'k \<Rightarrow> 'v \<Rightarrow> ('k \<times> 'v) list" where
  "dict_set [] k v = [(k, v)]"
| "dict_set ((k', v') # d) k v =
     (if k' = k then (k, v) # d else (k', v') # dict_set d k v)"

text \<open>The display \<^verbatim>\<open>{"id": x, **d}\<close>: the key \<^verbatim>\<open>id\<close> first, then every item of
  \<^verbatim>\<open>d\<close> stored in order.\<close>

fun dict_update :: "('k \<times> 'v) list \<Rightarrow> ('k \<times> 'v) list \<Rightarrow> ('k \<times> 'v) list" where
  "dict_update acc [] = acc"
| "dict_update acc ((k, v) # d) = dict_update (dict_set acc k v) d"

subsection \<open>Binary64 arithmetic\<close>

definition pow2 :: "int \<Rightarrow> rat" where
  "pow2 e = (if 0 \<le> e then 2 ^ nat e else 1 / 2 ^ nat (- e))"

definition round_half_even :: "rat \<Rightarrow> int" where
  "round_half_even x =
     (let f = \<lfloor>x\<rfloor>; d = x - of_int f
      in if d < 1 / 2 then f
         else if 1 / 2 < d then f + 1
         else if even f then f else f + 1)"

text \<open>The exponent \<open>e\<close> with \<open>2 ^ e \<le> \<bar>r\<bar> < 2 ^ (e + 1)\<close>, for \<open>r \<noteq> 0\<close>.\<close>

definition binade :: "rat \<Rightarrow> int" where
  "binade r =
     (let (p, q) = quotient_of \<bar>r\<bar>;
          e0 = bitlen p - bitlen q
      in if pow2 e0 \<le> \<bar>r\<bar> then e0 else e0 - 1)"

text \<open>
  Rounding to binary64: 53 significant bits, the smallest spacing \<open>2 ^ - 1074\<close>
  (subnormal numbers), and an infinity when the rounded value reaches \<open>2 ^ 1024\<close>.
\<close>

definition fl :: "rat \<Rightarrow> pyfloat" where
  "fl r =
     (if r = 0 then Fin 0
      else let u = max (binade r - 52) (- 1074);
               v = of_int (round_half_even (r / pow2 u)) * pow2 u
           in if 2 ^ 1024 \<le> v then PInf
              else if v \<le> - (2 ^ 1024) then NInf
              else Fin v)"

fun fneg :: "pyfloat \<Rightarrow> pyfloat" where
  "fneg (Fin x) = Fin (- x)"
| "fneg PInf = NInf"
| "fneg NInf = PInf"
| "fneg NaN = NaN"

fun fabs :: "pyfloat \<Rightarrow> pyfloat" where
  "fabs (Fin x) = Fin \<bar>x\<bar>"
| "fabs PInf = PInf"
| "fabs NInf = PInf"
| "fabs NaN = NaN"

fun is_finite :: "pyfloat \<Rightarrow> bool" where
  "is_finite (Fin x) = True"
| "is_finite f = False"

fun fadd :: "pyfloat \<Rightarrow> pyfloat \<Rightarrow> pyfloat" where
  "fadd (Fin x) (Fin y) = fl (x + y)"
| "fadd NaN b = NaN"
| "fadd a NaN = NaN"
| "fadd PInf NInf = NaN"
| "fadd NInf PInf = NaN"
| "fadd PInf b = PInf"
| "fadd NInf b = NInf"
| "fadd (Fin x) b = b"

definition fsub :: "pyfloat \<Rightarrow> pyfloat \<Rightarrow> pyfloat" where
  "fsub a b = fadd a (fneg b)"

fun fmul :: "pyfloat \<Rightarrow> pyfloat \<Rightarrow> pyfloat" where
  "fmul (Fin x) (Fin y) = fl (x * y)"
| "fmul NaN b = NaN"
| "fmul a NaN = NaN"
| "fmul (Fin x) b =
     (if x = 0 then NaN else if (0 < x) = (b = PInf) then PInf else NInf)"
| "fmul a (Fin y) =
     (if y = 0 then NaN else if (0 < y) = (a = PInf) then PInf else NInf)"
| "fmul a b = (if a = b then PInf else NInf)"

text \<open>Comparisons: every comparison with a NaN is false.\<close>

fun flt :: "pyfloat \<Rightarrow> pyfloat \<Rightarrow> bool" where
  "flt (Fin x) (Fin y) = (x < y)"
| "flt NaN b = False"
| "flt a NaN = False"
| "flt a NInf = False"
| "flt PInf b = False"
| "flt a b = True"

definition fle :: "pyfloat \<Rightarrow> pyfloat \<Rightarrow> bool" where
  "fle a b = (flt a b \<or> (a = b \<and> a \<noteq> NaN))"

text \<open>\<^verbatim>\<open>float(i)\<close> for an \<^verbatim>\<open>int\<close>: the nearest binary64 number, or OverflowError.\<close>

definition int_to_float :: "int \<Rightarrow> pyfloat option" where
  "int_to_float i = (case fl (of_int i) of Fin v \<Rightarrow> Some (Fin v) | _ \<Rightarrow> None)"

text \<open>The float literal \<^verbatim>\<open>0.11\<close> of the source: the binary64 number nearest to 11/100.\<close>

definition lit_0_11 :: pyfloat where
  "lit_0_11 = fl (11 / 100)"

subsection \<open>The operators and builtins the handlers use\<close>

text \<open>
  \<^verbatim>\<open>a + b\<close> and \<open>a * b\<close> on numbers: two ints give an int, an int meeting a float is
  converted first.  The handlers apply them to numbers only; any other operand is
  reported as TypeError.
\<close>

fun py_add :: "pyval \<Rightarrow> pyval \<Rightarrow> error + pyval" where
  "py_add (VInt a) (VInt b) = Inr (VInt (a + b))"
| "py_add (VFloat a) (VFloat b) = Inr (VFloat (fadd a b))"
| "py_add (VInt a) (VFloat b) =
     (case int_to_float a of None \<Rightarrow> Inl OverflowError | Some x \<Rightarrow> Inr (VFloat (fadd x b)))"
| "py_add (VFloat a) (VInt b) =
     (case int_to_float b of None \<Rightarrow> Inl OverflowError | Some y \<Rightarrow> Inr (VFloat (fadd a y)))"
| "py_add a b = Inl TypeError"

fun py_mul :: "pyval \<Rightarrow> pyval \<Rightarrow> error + pyval" where
  "py_mul (VInt a) (VInt b) = Inr (VInt (a * b))"
| "py_mul (VFloat a) (VFloat b) = Inr (VFloat (fmul a b))"
| "py_mul (VInt a) (VFloat b) =
     (case int_to_float a of None \<Rightarrow> Inl OverflowError | Some x \<Rightarrow> Inr (VFloat (fmul x b)))"
| "py_mul (VFloat a) (VInt b) =
     (case int_to_float b of None \<Rightarrow> Inl OverflowError | Some y \<Rightarrow> Inr (VFloat (fmul a y)))"
| "py_mul a b = Inl TypeError"

text \<open>
  \<^verbatim>\<open>sum(xs)\<close> starts from the int \<^verbatim>\<open>0\<close>, so the sum of no items is the int
  \<^verbatim>\<open>0\<close>, and the first float \<open>x\<close> gives \<open>0.0 + x\<close>.  The remaining floats are
  added from left to right; CPython 3.12 and later carry a compensation term along
  (Neumaier's summation) and add it at the end, earlier versions do not.  The flag
  \<open>cmp\<close> selects the compensated summation.
\<close>

fun sum_floats :: "bool \<Rightarrow> pyfloat \<Rightarrow> pyfloat \<Rightarrow> pyfloat list \<Rightarrow> pyfloat" where
  "sum_floats cmp s c [] = (if cmp \<and> c \<noteq> Fin 0 \<and> is_finite c then fadd s c else s)"
| "sum_floats cmp s c (x # xs) =
     (let t = fadd s x;
          c' = (if \<not> cmp then c
                else if fle (fabs x) (fabs s) then fadd c (fadd (fsub s t) x)
                else fadd c (fadd (fsub x t) s))
      in sum_floats cmp t c' xs)"

fun float_sum :: "bool \<Rightarrow> pyfloat list \<Rightarrow> pyval" where
  "float_sum cmp [] = VInt 0"
| "float_sum cmp (x # xs) = VFloat (sum_floats cmp (fadd (Fin 0) x) (Fin 0) xs)"

fun as_float :: "pyval \<Rightarrow> pyfloat option" where
  "as_float (VFloat f) = Some f"
| "as_float v = None"

text \<open>The summands the handler produces are floats; a summand of another type is
  reported as TypeError.\<close>

definition py_sum :: "bool \<Rightarrow> pyval list \<Rightarrow> error + pyval" where
  "py_sum cmp vs =
     (case those (map as_float vs) of
        None \<Rightarrow> Inl TypeError
      | Some fs \<Rightarrow> Inr (float_sum cmp fs))"

text \<open>
  \<^verbatim>\<open>round(x, 2)\<close>: an int is returned as it is; a finite float is rounded, from its
  exact value, to the nearest multiple of 1/100 (ties to the even multiple), and the
  binary64 number nearest to that decimal is returned; infinities and NaN round to
  themselves.
\<close>

fun round2 :: "pyfloat \<Rightarrow> pyfloat" where
  "round2 (Fin x) = fl (of_int (round_half_even (x * 100)) / 100)"
| "round2 f = f"

fun py_round2 :: "pyval \<Rightarrow> error + pyval" where
  "py_round2 (VInt n) = Inr (VInt n)"
| "py_round2 (VFloat f) = Inr (VFloat (round2 f))"
| "py_round2 v = Inl TypeError"

section \<open>What the repository does not fix\<close>

text \<open>
  Three behaviours belong to the libraries and the interpreter under the service, not to
  its source, and differ between their versions.  They are parameters of the model:
  \<^item> \<open>lax_float\<close>: what pydantic's lax mode makes of a string or a boolean given
    for a \<^verbatim>\<open>float\<close> field (\<open>None\<close>: a type error);
  \<^item> \<open>email_syntax\<close>: the syntax check behind \<^verbatim>\<open>EmailStr\<close>, returning the
    normalised address (\<open>None\<close>: malformed);
  \<^item> \<open>compensated_sum\<close>: whether \<^verbatim>\<open>sum\<close> adds floats with compensation.
\<close>

record runtime =
  lax_float :: "pyval \<Rightarrow> pyfloat option"
  email_syntax :: "string \<Rightarrow> string option"
  compensated_sum :: bool

text \<open>A runtime for the worked examples, none of which puts a string or a boolean in
  a float field or carries an email address.\<close>

definition example_runtime :: runtime where
  "example_runtime =
     \<lparr>lax_float = (\<lambda>v. None), email_syntax = (\<lambda>s. None), compensated_sum = True\<rparr>"

section \<open>Storage\<close>

text \<open>
  Modelled from the spec: \<^verbatim>\<open>create_document\<close> of the module \<^verbatim>\<open>database\<close>, which
  the handlers import and whose source is not part of the repository snapshot.  The spec
  describes it as a single atomic insert of one document into the named collection that
  returns the storage-assigned identifier, an opaque string never reused, and that
  fails with a storage error when persistence fails.  The store therefore holds an
  availability flag, a counter that names the next identifier, and the documents
  inserted so far, each with its collection and identifier.
\<close>

record store =
  available :: bool
  next_id :: nat
  documents :: "(string \<times> string \<times> pydict) list"

fun id_string :: "nat \<Rightarrow> string" where
  "id_string n =
     (if n < 10 then [char_of (48 + n)]
      else id_string (n div 10) @ [char_of (48 + n mod 10)])"

declare id_string.simps [simp del]

definition create_document :: "store \<Rightarrow> string \<Rightarrow> pydict \<Rightarrow> error + string \<times> store" where
  "create_document st collection doc =
     (if \<not> available st then Inl StorageError
      else let i = id_string (next_id st)
           in Inr (i, st\<lparr>next_id := Suc (next_id st),
                         documents := documents st @ [(collection, i, doc)]\<rparr>))"

definition empty_store :: store where
  "empty_store = \<lparr>available = True, next_id = 0, documents = []\<rparr>"

section \<open>Field validation\<close>

text \<open>
  A pydantic model validates a dictionary field by field, ignores the keys it does not
  declare, fills an omitted field that has a default, and reports every field that
  failed.  Each function below validates one field and returns \<open>None\<close> when the
  field fails; \<open>bad\<close> collects the names of the failed fields.
\<close>

definition bad :: "string \<Rightarrow> 'a option \<Rightarrow> string list" where
  "bad k r = (case r of None \<Rightarrow> [k] | Some x \<Rightarrow> [])"

text \<open>\<^verbatim>\<open>str\<close>: a string only.\<close>

fun str_type :: "pyval \<Rightarrow> string option" where
  "str_type (VStr s) = Some s"
| "str_type v = None"

text \<open>\<^verbatim>\<open>float\<close>: a float as it is, an int converted; strings and booleans go
  through the lax coercion of the runtime.\<close>

fun float_type :: "runtime \<Rightarrow> pyval \<Rightarrow> pyfloat option" where
  "float_type rt (VFloat f) = Some f"
| "float_type rt (VInt i) = int_to_float i"
| "float_type rt (VStr s) = lax_float rt (VStr s)"
| "float_type rt (VBool b) = lax_float rt (VBool b)"
| "float_type rt v = None"

text \<open>A required field.\<close>

definition required :: "(pyval \<Rightarrow> 'a option) \<Rightarrow> pydict \<Rightarrow> string \<Rightarrow> 'a option" where
  "required ty d k = (case dict_get d k of None \<Rightarrow> None | Some v \<Rightarrow> ty v)"

text \<open>A field with a default: \<^verbatim>\<open>x: T = dflt\<close>, also \<^verbatim>\<open>Field(default_factory=...)\<close>.\<close>

definition with_default :: "(pyval \<Rightarrow> 'a option) \<Rightarrow> 'a \<Rightarrow> pydict \<Rightarrow> string \<Rightarrow> 'a option" where
  "with_default ty dflt d k = (case dict_get d k of None \<Rightarrow> Some dflt | Some v \<Rightarrow> ty v)"

text \<open>\<^verbatim>\<open>Optional[T]\<close>: \<^verbatim>\<open>None\<close> is accepted beside the values of \<open>T\<close>.\<close>

definition optional :: "(pyval \<Rightarrow> 'a option) \<Rightarrow> pyval \<Rightarrow> 'a option option" where
  "optional ty v = (case v of VNone \<Rightarrow> Some None | _ \<Rightarrow> map_option Some (ty v))"

text \<open>\<^verbatim>\<open>List[T]\<close>: a list all of whose items are values of \<open>T\<close>.\<close>

fun list_type :: "(pyval \<Rightarrow> 'a option) \<Rightarrow> pyval \<Rightarrow> 'a list option" where
  "list_type ty (VList vs) = those (map ty vs)"
| "list_type ty v = None"

text \<open>\<^verbatim>\<open>Literal[...]\<close>: one of the listed strings.\<close>

definition literal_type :: "string list \<Rightarrow> pyval \<Rightarrow> string option" where
  "literal_type allowed v =
     (case str_type v of
        None \<Rightarrow> None
      | Some s \<Rightarrow> if List.member allowed s then Some s else None)"

text \<open>\<^verbatim>\<open>EmailStr\<close>: a string that passes the email syntax check.\<close>

definition email_type :: "runtime \<Rightarrow> pyval \<Rightarrow> string option" where
  "email_type rt v = (case str_type v of None \<Rightarrow> None | Some s \<Rightarrow> email_syntax rt s)"

text \<open>The bounds \<^verbatim>\<open>gt\<close>, \<^verbatim>\<open>ge\<close> and \<^verbatim>\<open>le\<close> of \<^verbatim>\<open>Field\<close>, checked on the float
  after its type: the value must be greater than, at least, or at most the bound.  A NaN
  compares false with every bound, so it passes none.\<close>

definition gt_ok :: "pyfloat \<Rightarrow> pyfloat \<Rightarrow> bool" where
  "gt_ok b f = flt b f"

definition ge_ok :: "pyfloat \<Rightarrow> pyfloat \<Rightarrow> bool" where
  "ge_ok b f = fle b f"

definition le_ok :: "pyfloat \<Rightarrow> pyfloat \<Rightarrow> bool" where
  "le_ok b f = fle f b"

definition constrained :: "(pyfloat \<Rightarrow> bool) \<Rightarrow> (pyval \<Rightarrow> pyfloat option) \<Rightarrow> pyval \<Rightarrow> pyfloat option" where
  "constrained ok ty v =
     (case ty v of None \<Rightarrow> None | Some f \<Rightarrow> if ok f then Some f else None)"

section \<open>The request models and handlers of \<^verbatim>\<open>main.py\<close>\<close>

text \<open>\<^verbatim>\<open>model_dump\<close> writes an optional string as the string or as \<^verbatim>\<open>None\<close>.\<close>

fun opt_val :: "string option \<Rightarrow> pyval" where
  "opt_val None = VNone"
| "opt_val (Some s) = VStr s"

subsection \<open>Customers\<close>

text \<open>
  \<^verbatim>\<open>
  class CreateCustomer(BaseModel):
      name: str
      email: Optional[str] = None
      phone: Optional[str] = None
  \<close>
\<close>

record CreateCustomer =
  cc_name :: string
  cc_email :: "string option"
  cc_phone :: "string option"

definition validate_CreateCustomer :: "pyval \<Rightarrow> error + CreateCustomer" where
  "validate_CreateCustomer body =
     (case body of
        VDict d \<Rightarrow>
          (let n = required str_type d ''name'';
               e = with_default (optional str_type) None d ''email'';
               p = with_default (optional str_type) None d ''phone''
           in case (n, e, p) of
                (Some n', Some e', Some p') \<Rightarrow>
                  Inr \<lparr>cc_name = n', cc_email = e', cc_phone = p'\<rparr>
              | _ \<Rightarrow> Inl (ValidationError (bad ''name'' n @ bad ''email'' e @ bad ''phone'' p)))
      | _ \<Rightarrow> Inl (ValidationError [''body'']))"

definition dump_CreateCustomer :: "CreateCustomer \<Rightarrow> pydict" where
  "dump_CreateCustomer p =
     [(''name'', VStr (cc_name p)), (''email'', opt_val (cc_email p)),
      (''phone'', opt_val (cc_phone p))]"

text \<open>
  \<^verbatim>\<open>
  def create_customer(payload: CreateCustomer):
      customer = payload.model_dump()
      customer["created_at"] = datetime.utcnow()
      cid = create_document("customer", customer)
      return {"id": cid, **customer}
  \<close>
  The clock reading and the store are arguments; the store is returned updated.
\<close>

definition create_customer :: "nat \<Rightarrow> store \<Rightarrow> CreateCustomer \<Rightarrow> error + pydict \<times> store" where
  "create_customer now st payload =
     (let customer = dump_CreateCustomer payload;
          customer = dict_set customer ''created_at'' (VDatetime now)
      in case create_document st ''customer'' customer of
           Inl e \<Rightarrow> Inl e
         | Inr (cid, st') \<Rightarrow> Inr (dict_update [(''id'', VStr cid)] customer, st'))"

text \<open>\<^verbatim>\<open>POST /customers\<close>: the framework validates the body against the model of
  the handler's parameter and calls the handler with the instance.\<close>

definition post_customers :: "nat \<Rightarrow> store \<Rightarrow> pyval \<Rightarrow> error + pydict \<times> store" where
  "post_customers now st body =
     (case validate_CreateCustomer body of
        Inl e \<Rightarrow> Inl e
      | Inr payload \<Rightarrow> create_customer now st payload)"

subsection \<open>Products\<close>

text \<open>
  \<^verbatim>\<open>
  class CreateProduct(BaseModel):
      sku: str
      name: str
      price: float
  \<close>
\<close>

record CreateProduct =
  cp_sku :: string
  cp_name :: string
  cp_price :: pyfloat

definition validate_CreateProduct :: "runtime \<Rightarrow> pyval \<Rightarrow> error + CreateProduct" where
  "validate_CreateProduct rt body =
     (case body of
        VDict d \<Rightarrow>
          (let s = required str_type d ''sku'';
               n = required str_type d ''name'';
               p = required (float_type rt) d ''price''
           in case (s, n, p) of
                (Some s', Some n', Some p') \<Rightarrow>
                  Inr \<lparr>cp_sku = s', cp_name = n', cp_price = p'\<rparr>
              | _ \<Rightarrow> Inl (ValidationError (bad ''sku'' s @ bad ''name'' n @ bad ''price'' p)))
      | _ \<Rightarrow> Inl (ValidationError [''body'']))"

definition dump_CreateProduct :: "CreateProduct \<Rightarrow> pydict" where
  "dump_CreateProduct p =
     [(''sku'', VStr (cp_sku p)), (''name'', VStr (cp_name p)), (''price'', VFloat (cp_price p))]"

text \<open>
  \<^verbatim>\<open>
  def create_product(payload: CreateProduct):
      data = payload.model_dump()
      data["created_at"] = datetime.utcnow()
      pid = create_document("product", data)
      return {"id": pid, **data}
  \<close>
\<close>

definition create_product :: "nat \<Rightarrow> store \<Rightarrow> CreateProduct \<Rightarrow> error + pydict \<times> store" where
  "create_product now st payload =
     (let data = dump_CreateProduct payload;
          data = dict_set data ''created_at'' (VDatetime now)
      in case create_document st ''product'' data of
           Inl e \<Rightarrow> Inl e
         | Inr (pid, st') \<Rightarrow> Inr (dict_update [(''id'', VStr pid)] data, st'))"

definition post_products :: "runtime \<Rightarrow> nat \<Rightarrow> store \<Rightarrow> pyval \<Rightarrow> error + pydict \<times> store" where
  "post_products rt now st body =
     (case validate_CreateProduct rt body of
        Inl e \<Rightarrow> Inl e
      | Inr payload \<Rightarrow> create_product now st payload)"

subsection \<open>Invoices\<close>

text \<open>
  \<^verbatim>\<open>
  class InvoiceItem(BaseModel):
      product_id: str
      name: str
      quantity: float
      price: float
      tax_rate: float = 0.11

  class CreateInvoice(BaseModel):
      customer_id: str
      items: List[InvoiceItem]
      currency: str = "IDR"
  \<close>
  These are the classes of \<^verbatim>\<open>main.py\<close>; the class \<^verbatim>\<open>InvoiceItem\<close> of
  \<^verbatim>\<open>schemas.py\<close>, which bounds the quantity and the price, is modelled further down.
\<close>

record InvoiceItem =
  ii_product_id :: string
  ii_name :: string
  ii_quantity :: pyfloat
  ii_price :: pyfloat
  ii_tax_rate :: pyfloat

record CreateInvoice =
  ci_customer_id :: string
  ci_items :: "InvoiceItem list"
  ci_currency :: string

definition InvoiceItem_type :: "runtime \<Rightarrow> pyval \<Rightarrow> InvoiceItem option" where
  "InvoiceItem_type rt v =
     (case v of
        VDict d \<Rightarrow>
          (case (required str_type d ''product_id'', required str_type d ''name'',
                 required (float_type rt) d ''quantity'', required (float_type rt) d ''price'',
                 with_default (float_type rt) lit_0_11 d ''tax_rate'') of
             (Some i, Some n, Some q, Some p, Some t) \<Rightarrow>
               Some \<lparr>ii_product_id = i, ii_name = n, ii_quantity = q, ii_price = p,
                     ii_tax_rate = t\<rparr>
           | _ \<Rightarrow> None)
      | _ \<Rightarrow> None)"

definition validate_CreateInvoice :: "runtime \<Rightarrow> pyval \<Rightarrow> error + CreateInvoice" where
  "validate_CreateInvoice rt body =
     (case body of
        VDict d \<Rightarrow>
          (let c = required str_type d ''customer_id'';
               its = required (list_type (InvoiceItem_type rt)) d ''items'';
               cur = with_default str_type ''IDR'' d ''currency''
           in case (c, its, cur) of
                (Some c', Some its', Some cur') \<Rightarrow>
                  Inr \<lparr>ci_customer_id = c', ci_items = its', ci_currency = cur'\<rparr>
              | _ \<Rightarrow>
                  Inl (ValidationError
                        (bad ''customer_id'' c @ bad ''items'' its @ bad ''currency'' cur)))
      | _ \<Rightarrow> Inl (ValidationError [''body'']))"

definition dump_InvoiceItem :: "InvoiceItem \<Rightarrow> pyval" where
  "dump_InvoiceItem i =
     VDict [(''product_id'', VStr (ii_product_id i)), (''name'', VStr (ii_name i)),
            (''quantity'', VFloat (ii_quantity i)), (''price'', VFloat (ii_price i)),
            (''tax_rate'', VFloat (ii_tax_rate i))]"

definition dump_CreateInvoice :: "CreateInvoice \<Rightarrow> pydict" where
  "dump_CreateInvoice p =
     [(''customer_id'', VStr (ci_customer_id p)),
      (''items'', VList (map dump_InvoiceItem (ci_items p))),
      (''currency'', VStr (ci_currency p))]"

text \<open>One summand of the generator,
  \<^verbatim>\<open>i["quantity"]*i["price"]*(1+i.get("tax_rate",0))\<close>: a subscript of a missing key
  raises KeyError, \<^verbatim>\<open>get\<close> falls back to the int \<^verbatim>\<open>0\<close>.\<close>

definition line_amount :: "pyval \<Rightarrow> error + pyval" where
  "line_amount i =
     (case i of
        VDict d \<Rightarrow>
          (case dict_get d ''quantity'' of
             None \<Rightarrow> Inl (KeyError ''quantity'')
           | Some q \<Rightarrow>
               (case dict_get d ''price'' of
                  None \<Rightarrow> Inl (KeyError ''price'')
                | Some p \<Rightarrow>
                    (case py_mul q p of
                       Inl e \<Rightarrow> Inl e
                     | Inr qp \<Rightarrow>
                         (case py_add (VInt 1)
                                 (case dict_get d ''tax_rate'' of None \<Rightarrow> VInt 0 | Some t \<Rightarrow> t) of
                            Inl e \<Rightarrow> Inl e
                          | Inr t1 \<Rightarrow> py_mul qp t1))))
      | _ \<Rightarrow> Inl TypeError)"

text \<open>The generator runs over the list: the first summand that raises ends it.\<close>

fun line_amounts :: "pyval list \<Rightarrow> error + pyval list" where
  "line_amounts [] = Inr []"
| "line_amounts (i # rest) =
     (case line_amount i of
        Inl e \<Rightarrow> Inl e
      | Inr a \<Rightarrow>
          (case line_amounts rest of Inl e \<Rightarrow> Inl e | Inr amounts \<Rightarrow> Inr (a # amounts)))"

text \<open>
  \<^verbatim>\<open>
  def create_invoice(payload: CreateInvoice):
      inv = payload.model_dump()
      inv["status"] = "draft"
      inv["created_at"] = datetime.utcnow()
      total = sum(i["quantity"]*i["price"]*(1+i.get("tax_rate",0)) for i in inv["items"])
      inv["total"] = round(total, 2)
      inv_id = create_document("invoice", inv)
      return {"id": inv_id, **inv}
  \<close>
\<close>

definition create_invoice :: "runtime \<Rightarrow> nat \<Rightarrow> store \<Rightarrow> CreateInvoice \<Rightarrow> error + pydict \<times> store" where
  "create_invoice rt now st payload =
     (let inv = dump_CreateInvoice payload;
          inv = dict_set inv ''status'' (VStr ''draft'');
          inv = dict_set inv ''created_at'' (VDatetime now)
      in case dict_get inv ''items'' of
           None \<Rightarrow> Inl (KeyError ''items'')
         | Some (VList items) \<Rightarrow>
             (case line_amounts items of
                Inl e \<Rightarrow> Inl e
              | Inr amounts \<Rightarrow>
                  (case py_sum (compensated_sum rt) amounts of
                     Inl e \<Rightarrow> Inl e
                   | Inr tot \<Rightarrow>
                       (case py_round2 tot of
                          Inl e \<Rightarrow> Inl e
                        | Inr rounded \<Rightarrow>
                            (let inv = dict_set inv ''total'' rounded
                             in case create_document st ''invoice'' inv of
                                  Inl e \<Rightarrow> Inl e
                                | Inr (inv_id, st') \<Rightarrow>
                                    Inr (dict_update [(''id'', VStr inv_id)] inv, st')))))
         | Some v \<Rightarrow> Inl TypeError)"

definition post_invoices :: "runtime \<Rightarrow> nat \<Rightarrow> store \<Rightarrow> pyval \<Rightarrow> error + pydict \<times> store" where
  "post_invoices rt now st body =
     (case validate_CreateInvoice rt body of
        Inl e \<Rightarrow> Inl e
      | Inr payload \<Rightarrow> create_invoice rt now st payload)"

section \<open>The entity schemas of \<^verbatim>\<open>schemas.py\<close>\<close>

subsection \<open>Role\<close>

text \<open>
  \<^verbatim>\<open>
  class Role(BaseModel):
      name: Literal["owner","admin","manager","sales","warehouse","procurement",
                    "finance","hr","employee"]
      permissions: List[str] = Field(default_factory=list)
  \<close>
\<close>

record Role =
  role_name :: string
  role_permissions :: "string list"

definition role_names :: "string list" where
  "role_names =
     [''owner'', ''admin'', ''manager'', ''sales'', ''warehouse'', ''procurement'',
      ''finance'', ''hr'', ''employee'']"

definition validate_Role :: "pyval \<Rightarrow> error + Role" where
  "validate_Role body =
     (case body of
        VDict d \<Rightarrow>
          (let n = required (literal_type role_names) d ''name'';
               ps = with_default (list_type str_type) [] d ''permissions''
           in case (n, ps) of
                (Some n', Some ps') \<Rightarrow> Inr \<lparr>role_name = n', role_permissions = ps'\<rparr>
              | _ \<Rightarrow> Inl (ValidationError (bad ''name'' n @ bad ''permissions'' ps)))
      | _ \<Rightarrow> Inl (ValidationError [''body'']))"

subsection \<open>Customer\<close>

text \<open>
  \<^verbatim>\<open>
  class Customer(BaseModel):
      name: str
      email: Optional[EmailStr] = None
      phone: Optional[str] = None
      company: Optional[str] = None
      address: Optional[str] = None
      tags: List[str] = Field(default_factory=list)
      source: Optional[str] = Field(default=None, description="lead source")
      assigned_to: Optional[str] = None
  \<close>
\<close>

record Customer =
  cu_name :: string
  cu_email :: "string option"
  cu_phone :: "string option"
  cu_company :: "string option"
  cu_address :: "string option"
  cu_tags :: "string list"
  cu_source :: "string option"
  cu_assigned_to :: "string option"

definition validate_Customer :: "runtime \<Rightarrow> pyval \<Rightarrow> error + Customer" where
  "validate_Customer rt body =
     (case body of
        VDict d \<Rightarrow>
          (let n = required str_type d ''name'';
               e = with_default (optional (email_type rt)) None d ''email'';
               p = with_default (optional str_type) None d ''phone'';
               c = with_default (optional str_type) None d ''company'';
               a = with_default (optional str_type) None d ''address'';
               t = with_default (list_type str_type) [] d ''tags'';
               s = with_default (optional str_type) None d ''source'';
               g = with_default (optional str_type) None d ''assigned_to''
           in case (n, e, p, c, a, t, s, g) of
                (Some n', Some e', Some p', Some c', Some a', Some t', Some s', Some g') \<Rightarrow>
                  Inr \<lparr>cu_name = n', cu_email = e', cu_phone = p', cu_company = c',
                       cu_address = a', cu_tags = t', cu_source = s', cu_assigned_to = g'\<rparr>
              | _ \<Rightarrow>
                  Inl (ValidationError
                        (bad ''name'' n @ bad ''email'' e @ bad ''phone'' p @ bad ''company'' c @
                         bad ''address'' a @ bad ''tags'' t @ bad ''source'' s @
                         bad ''assigned_to'' g)))
      | _ \<Rightarrow> Inl (ValidationError [''body'']))"

subsection \<open>InvoiceItem\<close>

text \<open>
  \<^verbatim>\<open>
  class InvoiceItem(BaseModel):
      product_id: str
      name: str
      quantity: float = Field(gt=0)
      price: float = Field(ge=0)
      tax_rate: float = 0.11  # default 11% VAT (PPN)
  \<close>
  The class of \<^verbatim>\<open>schemas.py\<close>; the record reuses the one of the request model,
  whose fields are the same.
\<close>

definition validate_Schema_InvoiceItem :: "runtime \<Rightarrow> pyval \<Rightarrow> error + InvoiceItem" where
  "validate_Schema_InvoiceItem rt body =
     (case body of
        VDict d \<Rightarrow>
          (let i = required str_type d ''product_id'';
               n = required str_type d ''name'';
               q = required (constrained (gt_ok (Fin 0)) (float_type rt)) d ''quantity'';
               p = required (constrained (ge_ok (Fin 0)) (float_type rt)) d ''price'';
               t = with_default (float_type rt) lit_0_11 d ''tax_rate''
           in case (i, n, q, p, t) of
                (Some i', Some n', Some q', Some p', Some t') \<Rightarrow>
                  Inr \<lparr>ii_product_id = i', ii_name = n', ii_quantity = q', ii_price = p',
                       ii_tax_rate = t'\<rparr>
              | _ \<Rightarrow>
                  Inl (ValidationError
                        (bad ''product_id'' i @ bad ''name'' n @ bad ''quantity'' q @
                         bad ''price'' p @ bad ''tax_rate'' t)))
      | _ \<Rightarrow> Inl (ValidationError [''body'']))"

subsection \<open>Supplier\<close>

text \<open>
  \<^verbatim>\<open>
  class Supplier(BaseModel):
      name: str
      email: Optional[EmailStr] = None
      phone: Optional[str] = None
      address: Optional[str] = None
      rating: Optional[float] = Field(default=None, ge=0, le=5)
  \<close>
\<close>

record Supplier =
  su_name :: string
  su_email :: "string option"
  su_phone :: "string option"
  su_address :: "string option"
  su_rating :: "pyfloat option"

definition rating_ok :: "pyfloat \<Rightarrow> bool" where
  "rating_ok f = (ge_ok (Fin 0) f \<and> le_ok (Fin 5) f)"

definition validate_Supplier :: "runtime \<Rightarrow> pyval \<Rightarrow> error + Supplier" where
  "validate_Supplier rt body =
     (case body of
        VDict d \<Rightarrow>
          (let n = required str_type d ''name'';
               e = with_default (optional (email_type rt)) None d ''email'';
               p = with_default (optional str_type) None d ''phone'';
               a = with_default (optional str_type) None d ''address'';
               r = with_default (optional (constrained rating_ok (float_type rt))) None
                     d ''rating''
           in case (n, e, p, a, r) of
                (Some n', Some e', Some p', Some a', Some r') \<Rightarrow>
                  Inr \<lparr>su_name = n', su_email = e', su_phone = p', su_address = a',
                       su_rating = r'\<rparr>
              | _ \<Rightarrow>
                  Inl (ValidationError
                        (bad ''name'' n @ bad ''email'' e @ bad ''phone'' p @
                         bad ''address'' a @ bad ''rating'' r)))
      | _ \<Rightarrow> Inl (ValidationError [''body'']))"

subsection \<open>JournalLine\<close>

text \<open>
  \<^verbatim>\<open>
  class JournalLine(BaseModel):
      account_code: str
      debit: float = 0.0
      credit: float = 0.0
      memo: Optional[str] = None
  \<close>
\<close>

record JournalLine =
  jl_account_code :: string
  jl_debit :: pyfloat
  jl_credit :: pyfloat
  jl_memo :: "string option"

definition validate_JournalLine :: "runtime \<Rightarrow> pyval \<Rightarrow> error + JournalLine" where
  "validate_JournalLine rt body =
     (case body of
        VDict d \<Rightarrow>
          (let a = required str_type d ''account_code'';
               db = with_default (float_type rt) (Fin 0) d ''debit'';
               cr = with_default (float_type rt) (Fin 0) d ''credit'';
               m = with_default (optional str_type) None d ''memo''
           in case (a, db, cr, m) of
                (Some a', Some db', Some cr', Some m') \<Rightarrow>
                  Inr \<lparr>jl_account_code = a', jl_debit = db', jl_credit = cr', jl_memo = m'\<rparr>
              | _ \<Rightarrow>
                  Inl (ValidationError
                        (bad ''account_code'' a @ bad ''debit'' db @ bad ''credit'' cr @
                         bad ''memo'' m)))
      | _ \<Rightarrow> Inl (ValidationError [''body'']))"

section \<open>The derived total as the specification words it\<close>

text \<open>
  The specification gives the total of an invoice as the sum over its items of
  quantity \<times> price \<times> (1 + tax_rate), rounded to two decimal places.  On the validated
  items, in the arithmetic of the service:
\<close>

definition line_total_spec :: "InvoiceItem \<Rightarrow> pyfloat" where
  "line_total_spec i = fmul (fmul (ii_quantity i) (ii_price i)) (fadd (Fin 1) (ii_tax_rate i))"

definition invoice_total_spec :: "bool \<Rightarrow> InvoiceItem list \<Rightarrow> pyval" where
  "invoice_total_spec cmp its =
     (case float_sum cmp (map line_total_spec its) of
        VFloat s \<Rightarrow> VFloat (round2 s)
      | v \<Rightarrow> v)"

text \<open>An item of a request body with its tax rate written out: an item that omits
  \<^verbatim>\<open>tax_rate\<close> gets the explicit value \<^verbatim>\<open>0.11\<close>, any other item is left alone.\<close>

definition explicit_tax :: "pyval \<Rightarrow> pyval" where
  "explicit_tax i =
     (case i of
        VDict d \<Rightarrow>
          (case dict_get d ''tax_rate'' of
             None \<Rightarrow> VDict (dict_set d ''tax_rate'' (VFloat lit_0_11))
           | Some t \<Rightarrow> i)
      | _ \<Rightarrow> i)"

section \<open>Basic facts\<close>

lemma dict_get_dict_set:
  "dict_get (dict_set d k v) k' = (if k' = k then Some v else dict_get d k')"
  by (induction d) auto

lemma set_bad: "set (bad k r) = (if r = None then {k} else {})"
  by (cases r) (simp_all add: bad_def)

lemma int_to_float_5: "int_to_float 5 = Some (Fin 5)"
  by code_simp

lemma flt_5_501: "flt (Fin 5) (fl (501 / 100))"
  by code_simp

lemma not_in_range_501: "\<not> (fle (Fin 0) (fl (501 / 100)) \<and> fle (fl (501 / 100)) (Fin 5))"
  using flt_5_501 by (cases "fl (501 / 100)") (auto simp: fle_def)

lemma member_admin: "List.member role_names ''admin''"
  by code_simp

lemma validate_Customer_errors:
  "validate_Customer rt (VDict d) = Inl (ValidationError fs) \<Longrightarrow>
   fs = bad ''name'' (required str_type d ''name'') @
        bad ''email'' (with_default (optional (email_type rt)) None d ''email'') @
        bad ''phone'' (with_default (optional str_type) None d ''phone'') @
        bad ''company'' (with_default (optional str_type) None d ''company'') @
        bad ''address'' (with_default (optional str_type) None d ''address'') @
        bad ''tags'' (with_default (list_type str_type) [] d ''tags'') @
        bad ''source'' (with_default (optional str_type) None d ''source'') @
        bad ''assigned_to'' (with_default (optional str_type) None d ''assigned_to'')"
  by (simp add: validate_Customer_def Let_def split: option.splits)

subsection \<open>What the invoice handler computes\<close>

lemma int_to_float_1: "int_to_float 1 = Some (Fin 1)"
  by code_simp

lemma line_amount_dump: "line_amount (dump_InvoiceItem i) = Inr (VFloat (line_total_spec i))"
  by (simp add: line_amount_def dump_InvoiceItem_def line_total_spec_def int_to_float_1)

lemma line_amounts_dump:
  "line_amounts (map dump_InvoiceItem its) = Inr (map (\<lambda>i. VFloat (line_total_spec i)) its)"
  by (induction its) (simp_all add: line_amount_dump)

lemma those_as_float: "those (map as_float (map VFloat fs)) = Some fs"
  by (induction fs) simp_all

lemma py_sum_floats: "py_sum cmp (map (\<lambda>i. VFloat (f i)) its) = Inr (float_sum cmp (map f its))"
  using those_as_float [of "map f its"] by (simp add: py_sum_def comp_def)

lemma py_round2_float_sum:
  "py_round2 (float_sum cmp (map line_total_spec its)) = Inr (invoice_total_spec cmp its)"
  by (cases its) (simp_all add: invoice_total_spec_def)

lemma create_invoice_result:
  "create_invoice rt now st p =
     (if \<not> available st then Inl StorageError
      else Inr ([(''id'', VStr (id_string (next_id st))),
                 (''customer_id'', VStr (ci_customer_id p)),
                 (''items'', VList (map dump_InvoiceItem (ci_items p))),
                 (''currency'', VStr (ci_currency p)),
                 (''status'', VStr ''draft''),
                 (''created_at'', VDatetime now),
                 (''total'', invoice_total_spec (compensated_sum rt) (ci_items p))],
                st\<lparr>next_id := Suc (next_id st),
                   documents := documents st @
                     [(''invoice'', id_string (next_id st),
                       [(''customer_id'', VStr (ci_customer_id p)),
                        (''items'', VList (map dump_InvoiceItem (ci_items p))),
                        (''currency'', VStr (ci_currency p)),
                        (''status'', VStr ''draft''),
                        (''created_at'', VDatetime now),
                        (''total'', invoice_total_spec (compensated_sum rt) (ci_items p))])]\<rparr>))"
  by (simp add: create_invoice_def dump_CreateInvoice_def line_amounts_dump py_sum_floats
      py_round2_float_sum create_document_def Let_def)

section \<open>Bounds and defaults of the schemas\<close>

text \<open>
  C6, as the code has it.  The class \<^verbatim>\<open>JournalLine\<close> declares \<^verbatim>\<open>debit: float = 0.0\<close>
  and \<^verbatim>\<open>credit: float = 0.0\<close> with no bound.  So each of the two fields defaults to 0
  when omitted, and a line whose debit and credit are each omitted or any float, a
  negative one included, is accepted with the given values unchanged (given a string
  account code and a valid memo).
\<close>

theorem JournalLine_defaults_no_bounds:
  assumes "dict_get d ''account_code'' = Some (VStr a)"
    and "with_default (optional str_type) None d ''memo'' = Some m"
    and "dict_get d ''debit'' = map_option VFloat x"
    and "dict_get d ''credit'' = map_option VFloat y"
  shows "validate_JournalLine rt (VDict d) =
           Inr \<lparr>jl_account_code = a,
                jl_debit = (case x of None \<Rightarrow> Fin 0 | Some f \<Rightarrow> f),
                jl_credit = (case y of None \<Rightarrow> Fin 0 | Some f \<Rightarrow> f),
                jl_memo = m\<rparr>"
  using assms
  by (cases x; cases y) (simp_all add: validate_JournalLine_def required_def with_default_def)

text \<open>The theorem at a line with no debit and a negative credit.\<close>

theorem JournalLine_defaults_no_bounds_witness:
  "validate_JournalLine example_runtime
     (VDict [(''account_code'', VStr ''1000''), (''credit'', VFloat (Fin (- 3)))]) =
   Inr \<lparr>jl_account_code = ''1000'', jl_debit = Fin 0, jl_credit = Fin (- 3), jl_memo = None\<rparr>"
  using JournalLine_defaults_no_bounds
    [of "[(''account_code'', VStr ''1000''), (''credit'', VFloat (Fin (- 3)))]"
      "''1000''" None None "Some (Fin (- 3))" example_runtime]
  by (simp add: with_default_def)

text \<open>The claim as the specification states it fails: a line with the debit \<open>- 5\<close> is
  accepted, and its debit is below 0.\<close>

theorem JournalLine_negative_debit_accepted:
  "validate_JournalLine example_runtime
     (VDict [(''account_code'', VStr ''1000''), (''debit'', VFloat (Fin (- 5)))]) =
   Inr \<lparr>jl_account_code = ''1000'', jl_debit = Fin (- 5), jl_credit = Fin 0, jl_memo = None\<rparr>
   \<and> flt (Fin (- 5)) (Fin 0)"
  by (simp add: validate_JournalLine_def required_def with_default_def optional_def)

text \<open>
  C7.  The class \<^verbatim>\<open>Supplier\<close> declares
  \<^verbatim>\<open>rating: Optional[float] = Field(default=None, ge=0, le=5)\<close>.  Take a payload that
  gives a rating, that is, any value other than \<^verbatim>\<open>None\<close> under the key
  \<^verbatim>\<open>rating\<close>.  Unless that value is a float, or converts to one, that is at least 0 and
  at most 5, the payload is rejected with a validation error that names the rating,
  whatever the other fields are: so is every rating below 0 or above 5, every infinite
  one, a NaN, and every value that is no number at all.  When the rating is exactly 0 or
  exactly 5 and the other fields are valid, the payload is accepted and keeps the rating.
\<close>

theorem Supplier_rating_bounds:
  assumes "dict_get d ''rating'' = Some v" and "v \<noteq> VNone"
  shows "(\<not> (\<exists>f. float_type rt v = Some f \<and> fle (Fin 0) f \<and> fle f (Fin 5)) \<longrightarrow>
            (\<exists>fs. validate_Supplier rt (VDict d) = Inl (ValidationError fs) \<and> ''rating'' \<in> set fs))
       \<and> (float_type rt v = Some f \<and> (f = Fin 0 \<or> f = Fin 5)
            \<and> required str_type d ''name'' = Some n
            \<and> with_default (optional (email_type rt)) None d ''email'' = Some e
            \<and> with_default (optional str_type) None d ''phone'' = Some p
            \<and> with_default (optional str_type) None d ''address'' = Some a \<longrightarrow>
            validate_Supplier rt (VDict d) =
              Inr \<lparr>su_name = n, su_email = e, su_phone = p, su_address = a, su_rating = Some f\<rparr>)"
proof -
  have opt: "optional (constrained rating_ok (float_type rt)) v =
               (case float_type rt v of
                  None \<Rightarrow> None
                | Some g \<Rightarrow> if fle (Fin 0) g \<and> fle g (Fin 5) then Some (Some g) else None)"
    using assms(2)
    by (cases v)
      (simp_all add: optional_def constrained_def rating_ok_def ge_ok_def le_ok_def
        split: option.splits)
  have r: "with_default (optional (constrained rating_ok (float_type rt))) None d ''rating'' =
             (case float_type rt v of
                  None \<Rightarrow> None
                | Some g \<Rightarrow> if fle (Fin 0) g \<and> fle g (Fin 5) then Some (Some g) else None)"
    using assms(1) opt by (simp add: with_default_def)
  have rej: "\<not> (\<exists>f. float_type rt v = Some f \<and> fle (Fin 0) f \<and> fle f (Fin 5)) \<Longrightarrow>
               \<exists>fs. validate_Supplier rt (VDict d) = Inl (ValidationError fs) \<and> ''rating'' \<in> set fs"
    using r by (auto simp: validate_Supplier_def bad_def Let_def split: option.splits)
  have b: "f = Fin 0 \<or> f = Fin 5 \<Longrightarrow> fle (Fin 0) f \<and> fle f (Fin 5)"
    by (auto simp: fle_def)
  have acc: "float_type rt v = Some f \<and> (f = Fin 0 \<or> f = Fin 5)
            \<and> required str_type d ''name'' = Some n
            \<and> with_default (optional (email_type rt)) None d ''email'' = Some e
            \<and> with_default (optional str_type) None d ''phone'' = Some p
            \<and> with_default (optional str_type) None d ''address'' = Some a \<Longrightarrow>
            validate_Supplier rt (VDict d) =
              Inr \<lparr>su_name = n, su_email = e, su_phone = p, su_address = a, su_rating = Some f\<rparr>"
    using r b by (auto simp: validate_Supplier_def Let_def)
  from rej acc show ?thesis by blast
qed

text \<open>The theorem at the ratings 5.01, \<open>- 0.5\<close>, NaN and a list (all rejected), and at 5
  given as an integer and 0.0 (both accepted).\<close>

theorem Supplier_rating_bounds_witness:
  "(\<exists>fs. validate_Supplier example_runtime
            (VDict [(''name'', VStr ''S''), (''rating'', VFloat (fl (501 / 100)))]) =
          Inl (ValidationError fs) \<and> ''rating'' \<in> set fs)
   \<and> (\<exists>fs. validate_Supplier example_runtime
            (VDict [(''name'', VStr ''S''), (''rating'', VFloat (Fin (- 1 / 2)))]) =
          Inl (ValidationError fs) \<and> ''rating'' \<in> set fs)
   \<and> (\<exists>fs. validate_Supplier example_runtime
            (VDict [(''name'', VStr ''S''), (''rating'', VFloat NaN)]) =
          Inl (ValidationError fs) \<and> ''rating'' \<in> set fs)
   \<and> (\<exists>fs. validate_Supplier example_runtime
            (VDict [(''name'', VStr ''S''), (''rating'', VList [])]) =
          Inl (ValidationError fs) \<and> ''rating'' \<in> set fs)
   \<and> validate_Supplier example_runtime (VDict [(''name'', VStr ''S''), (''rating'', VInt 5)]) =
       Inr \<lparr>su_name = ''S'', su_email = None, su_phone = None, su_address = None,
            su_rating = Some (Fin 5)\<rparr>
   \<and> validate_Supplier example_runtime
        (VDict [(''name'', VStr ''S''), (''rating'', VFloat (Fin 0))]) =
       Inr \<lparr>su_name = ''S'', su_email = None, su_phone = None, su_address = None,
            su_rating = Some (Fin 0)\<rparr>"
proof (intro conjI)
  show "\<exists>fs. validate_Supplier example_runtime
            (VDict [(''name'', VStr ''S''), (''rating'', VFloat (fl (501 / 100)))]) =
          Inl (ValidationError fs) \<and> ''rating'' \<in> set fs"
    using Supplier_rating_bounds
      [of "[(''name'', VStr ''S''), (''rating'', VFloat (fl (501 / 100)))]"
        "VFloat (fl (501 / 100))" example_runtime] not_in_range_501
    by simp
  show "\<exists>fs. validate_Supplier example_runtime
            (VDict [(''name'', VStr ''S''), (''rating'', VFloat (Fin (- 1 / 2)))]) =
          Inl (ValidationError fs) \<and> ''rating'' \<in> set fs"
    using Supplier_rating_bounds
      [of "[(''name'', VStr ''S''), (''rating'', VFloat (Fin (- 1 / 2)))]"
        "VFloat (Fin (- 1 / 2))" example_runtime]
    by (simp add: fle_def)
  show "\<exists>fs. validate_Supplier example_runtime
            (VDict [(''name'', VStr ''S''), (''rating'', VFloat NaN)]) =
          Inl (ValidationError fs) \<and> ''rating'' \<in> set fs"
    using Supplier_rating_bounds
      [of "[(''name'', VStr ''S''), (''rating'', VFloat NaN)]" "VFloat NaN" example_runtime]
    by (simp add: fle_def)
  show "\<exists>fs. validate_Supplier example_runtime
            (VDict [(''name'', VStr ''S''), (''rating'', VList [])]) =
          Inl (ValidationError fs) \<and> ''rating'' \<in> set fs"
    using Supplier_rating_bounds
      [of "[(''name'', VStr ''S''), (''rating'', VList [])]" "VList []"
        example_runtime]
    by simp
  show "validate_Supplier example_runtime (VDict [(''name'', VStr ''S''), (''rating'', VInt 5)]) =
       Inr \<lparr>su_name = ''S'', su_email = None, su_phone = None, su_address = None,
            su_rating = Some (Fin 5)\<rparr>"
    using Supplier_rating_bounds
      [of "[(''name'', VStr ''S''), (''rating'', VInt 5)]" "VInt 5" example_runtime "Fin 5"
        "''S''" None None None] int_to_float_5
    by (simp add: required_def with_default_def)
  show "validate_Supplier example_runtime
        (VDict [(''name'', VStr ''S''), (''rating'', VFloat (Fin 0))]) =
       Inr \<lparr>su_name = ''S'', su_email = None, su_phone = None, su_address = None,
            su_rating = Some (Fin 0)\<rparr>"
    using Supplier_rating_bounds
      [of "[(''name'', VStr ''S''), (''rating'', VFloat (Fin 0))]" "VFloat (Fin 0)"
        example_runtime "Fin 0" "''S''" None None None]
    by (simp add: required_def with_default_def)
qed

text \<open>
  C8.  The list fields with a default factory are \<^verbatim>\<open>Customer.tags\<close> and
  \<^verbatim>\<open>Role.permissions\<close>, both \<^verbatim>\<open>List[str] = Field(default_factory=list)\<close>.  A
  payload that omits the field and whose other fields are valid is accepted, and the
  field of the instance is the empty list.  Moreover, whatever the other fields are, the
  payload validates exactly as the payload that gives the empty list for the field; when
  it is accepted the field is the empty list; and when it is rejected (for another
  field) the error never names the omitted list field.
\<close>

theorem default_factory_lists:
  assumes "dict_get d ''tags'' = None" and "dict_get r ''permissions'' = None"
  shows "(required str_type d ''name'' = Some n
            \<and> with_default (optional (email_type rt)) None d ''email'' = Some e
            \<and> with_default (optional str_type) None d ''phone'' = Some p
            \<and> with_default (optional str_type) None d ''company'' = Some c
            \<and> with_default (optional str_type) None d ''address'' = Some a
            \<and> with_default (optional str_type) None d ''source'' = Some s
            \<and> with_default (optional str_type) None d ''assigned_to'' = Some g \<longrightarrow>
            validate_Customer rt (VDict d) =
              Inr \<lparr>cu_name = n, cu_email = e, cu_phone = p, cu_company = c, cu_address = a,
                   cu_tags = [], cu_source = s, cu_assigned_to = g\<rparr>)
       \<and> (required (literal_type role_names) r ''name'' = Some rn \<longrightarrow>
            validate_Role (VDict r) = Inr \<lparr>role_name = rn, role_permissions = []\<rparr>)
       \<and> validate_Customer rt (VDict d) =
           validate_Customer rt (VDict (dict_set d ''tags'' (VList [])))
       \<and> (\<forall>c. validate_Customer rt (VDict d) = Inr c \<longrightarrow> cu_tags c = [])
       \<and> (\<forall>fs. validate_Customer rt (VDict d) = Inl (ValidationError fs) \<longrightarrow> ''tags'' \<notin> set fs)
       \<and> validate_Role (VDict r) = validate_Role (VDict (dict_set r ''permissions'' (VList [])))
       \<and> (\<forall>x. validate_Role (VDict r) = Inr x \<longrightarrow> role_permissions x = [])
       \<and> (\<forall>fs. validate_Role (VDict r) = Inl (ValidationError fs) \<longrightarrow> ''permissions'' \<notin> set fs)"
proof (intro conjI)
  have t: "with_default (list_type str_type) [] d ''tags'' = Some []"
    using assms(1) by (simp add: with_default_def)
  have p: "with_default (list_type str_type) [] r ''permissions'' = Some []"
    using assms(2) by (simp add: with_default_def)
  show "required str_type d ''name'' = Some n
            \<and> with_default (optional (email_type rt)) None d ''email'' = Some e
            \<and> with_default (optional str_type) None d ''phone'' = Some p
            \<and> with_default (optional str_type) None d ''company'' = Some c
            \<and> with_default (optional str_type) None d ''address'' = Some a
            \<and> with_default (optional str_type) None d ''source'' = Some s
            \<and> with_default (optional str_type) None d ''assigned_to'' = Some g \<longrightarrow>
            validate_Customer rt (VDict d) =
              Inr \<lparr>cu_name = n, cu_email = e, cu_phone = p, cu_company = c, cu_address = a,
                   cu_tags = [], cu_source = s, cu_assigned_to = g\<rparr>"
    using t by (simp add: validate_Customer_def)
  show "required (literal_type role_names) r ''name'' = Some rn \<longrightarrow>
            validate_Role (VDict r) = Inr \<lparr>role_name = rn, role_permissions = []\<rparr>"
    using p by (simp add: validate_Role_def)
  show "validate_Customer rt (VDict d) =
           validate_Customer rt (VDict (dict_set d ''tags'' (VList [])))"
    using assms(1)
    by (simp add: validate_Customer_def required_def with_default_def dict_get_dict_set)
  show "\<forall>c. validate_Customer rt (VDict d) = Inr c \<longrightarrow> cu_tags c = []"
    using t by (simp add: validate_Customer_def Let_def split: option.splits)
  show "\<forall>fs. validate_Customer rt (VDict d) = Inl (ValidationError fs) \<longrightarrow> ''tags'' \<notin> set fs"
  proof (intro allI impI)
    fix fs assume "validate_Customer rt (VDict d) = Inl (ValidationError fs)"
    from validate_Customer_errors [OF this] show "''tags'' \<notin> set fs"
      using t by (simp add: set_bad)
  qed
  show "validate_Role (VDict r) = validate_Role (VDict (dict_set r ''permissions'' (VList [])))"
    using assms(2)
    by (simp add: validate_Role_def required_def with_default_def dict_get_dict_set)
  show "\<forall>x. validate_Role (VDict r) = Inr x \<longrightarrow> role_permissions x = []"
    using p by (simp add: validate_Role_def Let_def split: option.splits)
  show "\<forall>fs. validate_Role (VDict r) = Inl (ValidationError fs) \<longrightarrow> ''permissions'' \<notin> set fs"
    using p by (simp add: validate_Role_def Let_def set_bad split: option.splits)
qed

text \<open>The theorem at \<^verbatim>\<open>{"name": "Ann", "phone": "1"}\<close> and \<^verbatim>\<open>{"name": "admin"}\<close>:
  both are accepted, with the empty list.\<close>

theorem default_factory_lists_witness:
  "validate_Customer example_runtime (VDict [(''name'', VStr ''Ann''), (''phone'', VStr ''1'')]) =
     Inr \<lparr>cu_name = ''Ann'', cu_email = None, cu_phone = Some ''1'', cu_company = None,
          cu_address = None, cu_tags = [], cu_source = None, cu_assigned_to = None\<rparr>
   \<and> validate_Role (VDict [(''name'', VStr ''admin'')]) =
       Inr \<lparr>role_name = ''admin'', role_permissions = []\<rparr>"
  using default_factory_lists
    [of "[(''name'', VStr ''Ann''), (''phone'', VStr ''1'')]" "[(''name'', VStr ''admin'')]"
      "''Ann''" example_runtime None "Some ''1''" None None None None "''admin''"]
    member_admin
  by (simp add: required_def with_default_def optional_def literal_type_def)

section \<open>Email addresses\<close>

text \<open>
  C3.  The class \<^verbatim>\<open>Customer\<close> of \<^verbatim>\<open>schemas.py\<close> declares
  \<^verbatim>\<open>email: Optional[EmailStr]\<close>, and its validation rejects an address that fails
  the syntax check:
\<close>

lemma validate_Customer_rejects_malformed_email:
  assumes "dict_get d ''email'' = Some (VStr s)" and "email_syntax rt s = None"
  shows "\<exists>fs. validate_Customer rt (VDict d) = Inl (ValidationError fs) \<and> ''email'' \<in> set fs"
  using assms
  by (auto simp: validate_Customer_def with_default_def optional_def email_type_def bad_def Let_def
      split: option.splits)

text \<open>
  C3, the creation of a customer.  \<^verbatim>\<open>POST /customers\<close> validates against
  \<^verbatim>\<open>CreateCustomer\<close> of \<^verbatim>\<open>main.py\<close>, which declares \<^verbatim>\<open>email: Optional[str]\<close>:
  no syntax check is made, and the body with the email \<^verbatim>\<open>not-an-email\<close> is accepted
  and stored.
\<close>

theorem post_customers_accepts_malformed_email:
  "post_customers 7 empty_store
     (VDict [(''name'', VStr ''Ann''), (''email'', VStr ''not-an-email'')]) =
   Inr ([(''id'', VStr ''0''), (''name'', VStr ''Ann''), (''email'', VStr ''not-an-email''),
         (''phone'', VNone), (''created_at'', VDatetime 7)],
        \<lparr>available = True, next_id = 1,
         documents = [(''customer'', ''0'',
            [(''name'', VStr ''Ann''), (''email'', VStr ''not-an-email''),
             (''phone'', VNone), (''created_at'', VDatetime 7)])]\<rparr>)"
  by code_simp

end
